theory Spec2Isabelle
  imports Main "HOL-Library.AList"
begin

section \<open>The banking data store (backend/db/service.py)\<close>

text \<open>
  \<open>DatabaseService\<close> keeps one dictionary \<open>self.db\<close> with the optional top-level
  keys \<open>users\<close>, \<open>accounts\<close> and \<open>payments\<close>; each of them is a dictionary from an
  identifier to a record. Python dictionaries keep insertion order and
  \<open>_generate_payment_id\<close> iterates over the keys, so the dictionaries are
  association lists read with \<open>map_of\<close>.

  Amounts and balances are Python numbers, floats by the annotations of the
  code. The model keeps them in a type parameter that carries the operations
  the code applies (\<open>0\<close>, \<open><\<close>, \<open>+\<close>, \<open>-\<close>) and no law of arithmetic, so that what
  is proved of the code holds for floats as for integers. The type \<open>double\<close>
  below supplies the floats.

  A stored record is a dictionary too: a key the code reads may be absent
  (\<open>from_acc.get("balance", 0)\<close>), so the fields are optional, and a dictionary
  without any key is falsy (\<open>not from_acc\<close>).
\<close>

datatype py_error = KeyError

record user =
  name :: "string option"
  user_accounts :: "string list option"

record 'a account =
  balance :: "'a option"
  statements :: "(string \<times> string) list option"

record 'a payment =
  from_account :: string
  to_account :: string
  amount :: 'a
  date :: string
  status :: string

record 'a db =
  users :: "(string \<times> user) list option"
  accounts :: "(string \<times> 'a account) list option"
  payments :: "(string \<times> 'a payment) list option"

definition get_user :: "'a db \<Rightarrow> string \<Rightarrow> user option" where
  "get_user d user_id = (case users d of None \<Rightarrow> None | Some m \<Rightarrow> map_of m user_id)"

definition get_account :: "'a db \<Rightarrow> string \<Rightarrow> 'a account option" where
  "get_account d account_id =
     (case accounts d of None \<Rightarrow> None | Some m \<Rightarrow> map_of m account_id)"

definition get_payments :: "'a db \<Rightarrow> (string \<times> 'a payment) list" where
  "get_payments d = (case payments d of None \<Rightarrow> [] | Some m \<Rightarrow> m)"

definition get_payment :: "'a db \<Rightarrow> string \<Rightarrow> 'a payment option" where
  "get_payment d payment_id = map_of (get_payments d) payment_id"

definition update_payment :: "'a db \<Rightarrow> string \<Rightarrow> 'a payment \<Rightarrow> 'a db" where
  "update_payment d payment_id payment_data =
     d\<lparr>payments := Some (AList.update payment_id payment_data (get_payments d))\<rparr>"

text \<open>Truthiness of an optional dictionary: \<open>None\<close> and the empty dictionary are falsy.\<close>

definition user_truthy :: "user option \<Rightarrow> bool" where
  "user_truthy u =
     (case u of None \<Rightarrow> False | Some r \<Rightarrow> \<not> (name r = None \<and> user_accounts r = None))"

definition account_truthy :: "'a account option \<Rightarrow> bool" where
  "account_truthy a =
     (case a of None \<Rightarrow> False | Some r \<Rightarrow> \<not> (balance r = None \<and> statements r = None))"

subsection \<open>Payment identifiers\<close>

text \<open>
  \<open>payment_id.replace("PAY", "")\<close>: every occurrence of \<open>PAY\<close> is removed, scanning
  from the left.
\<close>

fun replace_PAY :: "string \<Rightarrow> string" where
  "replace_PAY [] = []"
| "replace_PAY (c # cs) =
     (if c = CHR ''P'' \<and> take 2 cs = ''AY'' then replace_PAY (drop 2 cs)
      else c # replace_PAY cs)"

text \<open>
  \<open>int(s)\<close> on a string: surrounding whitespace is stripped, one sign is allowed,
  then decimal digits follow, where single underscores may stand between two
  digits; anything else raises \<open>ValueError\<close> (here \<open>None\<close>). Characters are bytes;
  digits and spaces beyond ASCII and the interpreter's limit on the number of
  digits are outside the model.
\<close>

definition is_space :: "char \<Rightarrow> bool" where
  "is_space c = (of_char c \<in> set [9, 10, 11, 12, 13, 32 :: nat])"

definition strip :: "string \<Rightarrow> string" where
  "strip s = rev (dropWhile is_space (rev (dropWhile is_space s)))"

definition is_digit :: "char \<Rightarrow> bool" where
  "is_digit c = (48 \<le> (of_char c :: nat) \<and> (of_char c :: nat) \<le> 57)"

definition digit_val :: "char \<Rightarrow> nat" where
  "digit_val c = of_char c - 48"

fun py_digits :: "nat \<Rightarrow> bool \<Rightarrow> string \<Rightarrow> nat option" where
  "py_digits acc after_digit [] = (if after_digit then Some acc else None)"
| "py_digits acc after_digit (c # cs) =
     (if c = CHR ''_'' then
        (if after_digit then py_digits acc False cs else None)
      else if is_digit c then py_digits (10 * acc + digit_val c) True cs
      else None)"

definition py_int :: "string \<Rightarrow> int option" where
  "py_int s =
     (case strip s of
        [] \<Rightarrow> None
      | c # cs \<Rightarrow>
          if c = CHR ''-'' then map_option (\<lambda>n. - int n) (py_digits 0 False cs)
          else if c = CHR ''+'' then map_option int (py_digits 0 False cs)
          else map_option int (py_digits 0 False (c # cs)))"

text \<open>The format \<open>{n:03d}\<close>: decimal digits, zero-padded to width three, sign first.\<close>

definition digit_char :: "nat \<Rightarrow> char" where
  "digit_char d = char_of (48 + d)"

fun dec :: "nat \<Rightarrow> string" where
  "dec n = (if n < 10 then [digit_char n] else dec (n div 10) @ [digit_char (n mod 10)])"

declare dec.simps [simp del]

definition zero_pad :: "nat \<Rightarrow> string \<Rightarrow> string" where
  "zero_pad w s = replicate (w - length s) (CHR ''0'') @ s"

definition format_03d :: "int \<Rightarrow> string" where
  "format_03d n =
     (if n < 0 then CHR ''-'' # zero_pad 2 (dec (nat (- n))) else zero_pad 3 (dec (nat n)))"

text \<open>The loop of \<open>_generate_payment_id\<close> over the keys, with \<open>max_num\<close> as accumulator.\<close>

fun max_payment_num :: "int \<Rightarrow> string list \<Rightarrow> int" where
  "max_payment_num max_num [] = max_num"
| "max_payment_num max_num (payment_id # ids) =
     (case py_int (replace_PAY payment_id) of
        None \<Rightarrow> max_payment_num max_num ids
      | Some num \<Rightarrow> max_payment_num (max max_num num) ids)"

definition generate_payment_id :: "'a db \<Rightarrow> string" where
  "generate_payment_id d =
     ''PAY'' @ format_03d (max_payment_num 0 (map fst (get_payments d)) + 1)"

subsection \<open>Transfer of funds\<close>

text \<open>
  \<open>from_acc\<close> and \<open>to_acc\<close> are references into \<open>self.db\<close>: the two in-place updates
  are written to the store one after the other, and the second one reads the
  store the first one left (the two identifiers may be equal; two different
  identifiers hold two different dictionaries). \<open>today\<close> stands
  for \<open>datetime.now().strftime("%Y-%m-%d")\<close>. The result pairs what the call
  returns or raises with the store it leaves behind.
\<close>

definition balance_or_0 :: "('a::zero) account \<Rightarrow> 'a" where
  "balance_or_0 a = (case balance a of None \<Rightarrow> 0 | Some b \<Rightarrow> b)"

definition set_balance :: "'a db \<Rightarrow> string \<Rightarrow> 'a \<Rightarrow> 'a db" where
  "set_balance d account_id b =
     d\<lparr>accounts :=
         map_option (AList.map_entry account_id (\<lambda>a. a\<lparr>balance := Some b\<rparr>)) (accounts d)\<rparr>"

definition transfer_funds ::
  "string \<Rightarrow> ('a::{zero,ord,plus,minus}) db \<Rightarrow> string \<Rightarrow> string \<Rightarrow> 'a
     \<Rightarrow> (py_error + string option) \<times> 'a db" where
  "transfer_funds today d from_id to_id amt =
     (case (get_account d from_id, get_account d to_id) of
        (Some from_acc, Some to_acc) \<Rightarrow>
          if \<not> account_truthy (Some from_acc) \<or> \<not> account_truthy (Some to_acc)
          then (Inr None, d)
          else if balance_or_0 from_acc < amt then (Inr None, d)
          else
            (case balance from_acc of
               None \<Rightarrow> (Inl KeyError, d)
             | Some b \<Rightarrow>
                 let d1 = set_balance d from_id (b - amt) in
                 (case Option.bind (get_account d1 to_id) balance of
                    None \<Rightarrow> (Inl KeyError, d1)
                  | Some b' \<Rightarrow>
                      let d2 = set_balance d1 to_id (b' + amt);
                          payment_id = generate_payment_id d2;
                          payment_data =
                            \<lparr>from_account = from_id, to_account = to_id, amount = amt,
                             date = today, status = ''Completed''\<rparr>
                      in (Inr (Some payment_id), update_payment d2 payment_id payment_data)))
      | _ \<Rightarrow> (Inr None, d))"

subsection \<open>Floats\<close>

text \<open>
  A Python float is an IEEE 754 double. A finite double is \<open>m \<times> 2\<^sup>e\<close> with
  \<open>\<bar>m\<bar> < 2\<^sup>5\<^sup>3\<close>; \<open>Double m e\<close> stands for it, with \<open>m\<close> odd, or \<open>m\<close> and \<open>e\<close> both
  zero, so that equal numbers are equal terms. A sum or a difference is
  computed exactly and then rounded to 53 bits, a tie to the even neighbour.
  Overflow, subnormal numbers, infinities and NaN are outside the model.
\<close>

datatype double = Double int int

function bit_length :: "int \<Rightarrow> nat" where
  "bit_length m = (if m \<le> 0 then 0 else Suc (bit_length (m div 2)))"
  by pat_completeness auto
termination
  by (relation "measure nat") auto

declare bit_length.simps [simp del]

function trailing_zeros :: "int \<Rightarrow> nat" where
  "trailing_zeros m = (if m = 0 \<or> odd m then 0 else Suc (trailing_zeros (m div 2)))"
  by pat_completeness auto
termination
  by (relation "measure (\<lambda>m. nat \<bar>m\<bar>)") auto

declare trailing_zeros.simps [simp del]

definition normalise :: "int \<Rightarrow> int \<Rightarrow> double" where
  "normalise m e =
     (if m = 0 then Double 0 0
      else let k = trailing_zeros m in Double (m div 2 ^ k) (e + int k))"

definition round53 :: "int \<Rightarrow> int \<Rightarrow> double" where
  "round53 m e =
     (let k = bit_length \<bar>m\<bar> - 53 in
      if k = 0 then normalise m e
      else
        let q = m div 2 ^ k; r = m mod 2 ^ k; half = 2 ^ (k - 1) in
        normalise (if half < r \<or> (r = half \<and> odd q) then q + 1 else q) (e + int k))"

fun double_add :: "double \<Rightarrow> double \<Rightarrow> double" where
  "double_add (Double m1 e1) (Double m2 e2) =
     (let e = min e1 e2 in round53 (m1 * 2 ^ nat (e1 - e) + m2 * 2 ^ nat (e2 - e)) e)"

fun double_neg :: "double \<Rightarrow> double" where
  "double_neg (Double m e) = Double (- m) e"

fun double_less :: "double \<Rightarrow> double \<Rightarrow> bool" where
  "double_less (Double m1 e1) (Double m2 e2) =
     (let e = min e1 e2 in m1 * 2 ^ nat (e1 - e) < m2 * 2 ^ nat (e2 - e))"

instantiation double :: "{zero,ord,plus,minus}"
begin

definition zero_double :: double where
  "zero_double = Double 0 0"

definition plus_double :: "double \<Rightarrow> double \<Rightarrow> double" where
  "plus_double x y = double_add x y"

definition minus_double :: "double \<Rightarrow> double \<Rightarrow> double" where
  "minus_double x y = double_add x (double_neg y)"

definition less_double :: "double \<Rightarrow> double \<Rightarrow> bool" where
  "less_double x y = double_less x y"

definition less_eq_double :: "double \<Rightarrow> double \<Rightarrow> bool" where
  "less_eq_double x y = (\<not> double_less y x)"

instance ..

end

section \<open>Agent orchestration (backend/services/agents.py)\<close>

text \<open>
  \<open>AgentService.__init__\<close> builds the four agents, hands each one the list of
  functions it may call, and makes the triage agent the current one. The four
  \<open>transfer_*\<close> methods are the hand-off actions: each assigns
  \<open>self.current_agent\<close> and returns the agent it assigned. The other functions
  are the domain actions of \<open>agents/*\<close>; they are not methods of the service and
  leave it as it is.
\<close>

datatype agent = TriageAgent | AccountsAgent | PaymentsAgent | ApplicationsAgent

datatype agent_function =
    Transfer_to_accounts | Transfer_to_payments | Transfer_to_applications
  | Transfer_back_to_triage
  | Handle_account_balance | Retrieve_bank_statement
  | Transfer_funds | Schedule_payment | Cancel_payment
  | Apply_for_loan | Apply_for_credit_card

datatype utterance = Utterance string string

record agent_service =
  messages :: "utterance list"
  current_agent :: agent

definition agent_service_init :: agent_service where
  "agent_service_init = \<lparr>messages = [], current_agent = TriageAgent\<rparr>"

fun agent_functions :: "agent \<Rightarrow> agent_function list" where
  "agent_functions TriageAgent =
     [Transfer_to_accounts, Transfer_to_payments, Transfer_to_applications]"
| "agent_functions AccountsAgent =
     [Transfer_to_payments, Handle_account_balance, Retrieve_bank_statement]"
| "agent_functions PaymentsAgent =
     [Transfer_back_to_triage, Transfer_funds, Schedule_payment, Cancel_payment]"
| "agent_functions ApplicationsAgent =
     [Transfer_back_to_triage, Apply_for_loan, Apply_for_credit_card]"

definition transfer_to_accounts :: "agent_service \<Rightarrow> agent_service" where
  "transfer_to_accounts svc = svc\<lparr>current_agent := AccountsAgent\<rparr>"

definition transfer_to_payments :: "agent_service \<Rightarrow> agent_service" where
  "transfer_to_payments svc = svc\<lparr>current_agent := PaymentsAgent\<rparr>"

definition transfer_to_applications :: "agent_service \<Rightarrow> agent_service" where
  "transfer_to_applications svc = svc\<lparr>current_agent := ApplicationsAgent\<rparr>"

definition transfer_back_to_triage :: "agent_service \<Rightarrow> agent_service" where
  "transfer_back_to_triage svc = svc\<lparr>current_agent := TriageAgent\<rparr>"

definition reset_agent :: "agent_service \<Rightarrow> agent_service" where
  "reset_agent svc = svc\<lparr>current_agent := TriageAgent\<rparr>"

fun is_hand_off :: "agent_function \<Rightarrow> bool" where
  "is_hand_off Transfer_to_accounts = True"
| "is_hand_off Transfer_to_payments = True"
| "is_hand_off Transfer_to_applications = True"
| "is_hand_off Transfer_back_to_triage = True"
| "is_hand_off _ = False"

fun call_function :: "agent_function \<Rightarrow> agent_service \<Rightarrow> agent_service" where
  "call_function Transfer_to_accounts svc = transfer_to_accounts svc"
| "call_function Transfer_to_payments svc = transfer_to_payments svc"
| "call_function Transfer_to_applications svc = transfer_to_applications svc"
| "call_function Transfer_back_to_triage svc = transfer_back_to_triage svc"
| "call_function _ svc = svc"

text \<open>
  \<open>run\<close> starts the swarm with \<open>agent=self.current_agent\<close>; the swarm looks a
  requested function up in the list of the agent that is running and skips a
  name it does not find there. So a function is called only when the current
  agent declares it.
\<close>

definition invoke :: "agent_function \<Rightarrow> agent_service \<Rightarrow> agent_service" where
  "invoke f svc =
     (if f \<in> set (agent_functions (current_agent svc)) then call_function f svc else svc)"

text \<open>The transition sets as the specification lists them, to compare with the code.\<close>

fun declared_transitions :: "agent \<Rightarrow> agent set" where
  "declared_transitions TriageAgent = {AccountsAgent, PaymentsAgent, ApplicationsAgent}"
| "declared_transitions AccountsAgent = {PaymentsAgent}"
| "declared_transitions PaymentsAgent = {TriageAgent}"
| "declared_transitions ApplicationsAgent = {TriageAgent}"

section \<open>The voice session (backend/ws/voice.py)\<close>

text \<open>
  Messages the handler writes to the socket with \<open>websocket.send_json\<close>:
  the configuration sent on connect, the keep-alive reply, and the events of
  the language model (\<open>LLMResponse\<close> of \<open>models.py\<close>: \<open>response_id\<close>, \<open>content\<close>,
  \<open>content_complete\<close>, \<open>end_call\<close>, \<open>transfer_number\<close>).
\<close>

datatype out_msg =
    Config_response
  | Ping_pong_response "int option"
  | LLM_response int string bool bool "string option"

text \<open>
  An inbound message is a JSON object read with \<open>request_json.get\<close>; every key
  may be absent. \<open>call_from_number\<close> is \<open>request_json["call"]["from_number"]\<close>,
  absent when either key is.
\<close>

record request_json =
  interaction_type :: "string option"
  call_from_number :: "string option"
  timestamp :: "int option"
  req_response_id :: "int option"
  transcript :: "utterance list option"

text \<open>
  The language model behind the service is outside the program: the sentence
  it opens with and the increments of text it answers a request with are
  parameters.
\<close>

record llm =
  begin_sentence :: "string option \<Rightarrow> string"
  completion :: "string option \<Rightarrow> int \<Rightarrow> utterance list \<Rightarrow> string list"

text \<open>
  Modelled from the spec: the class \<open>LlmService\<close> of \<open>services/llm_service\<close>, which
  is not among the sources. The specification's session holds the resolved
  profile of the caller, the transcript and the active handler; the last two
  are kept in the agent service of \<open>agents.py\<close>.
\<close>

record llm_service =
  user_name :: "string option"
  user_phone :: "string option"
  agent_swarm :: agent_service

text \<open>
  Modelled from the spec: the constructor \<open>LlmService()\<close>, not among the sources.
  A new session has no profile, an empty transcript and the triage handler.
\<close>

definition LlmService :: llm_service where
  "LlmService = \<lparr>user_name = None, user_phone = None, agent_swarm = agent_service_init\<rparr>"

text \<open>
  Modelled from the spec: \<open>LlmService.set_user_info\<close>, not among the sources. The
  handler calls it with the name and the formatted number, or with the name
  \<open>there\<close> alone; it attaches the profile to the session.
\<close>

definition set_user_info ::
  "llm_service \<Rightarrow> string option \<Rightarrow> string option \<Rightarrow> llm_service" where
  "set_user_info c nm phone = c\<lparr>user_name := nm, user_phone := phone\<rparr>"

text \<open>
  Modelled from the spec: \<open>LlmService.draft_begin_message\<close>, not among the
  sources. It is the opening response: one complete event, treated as
  sequence 0.
\<close>

definition draft_begin_message :: "llm \<Rightarrow> llm_service \<Rightarrow> out_msg" where
  "draft_begin_message m c = LLM_response 0 (begin_sentence m (user_name c)) True False None"

text \<open>
  Modelled from the spec: \<open>LlmService.draft_response\<close>, not among the sources. It
  yields one event that is not final for each increment of text and then one
  final event, all with the sequence number of the request.
\<close>

definition draft_response ::
  "llm \<Rightarrow> llm_service \<Rightarrow> int \<Rightarrow> utterance list \<Rightarrow> out_msg list" where
  "draft_response m c rid tr =
     map (\<lambda>text. LLM_response rid text False False None) (completion m (user_name c) rid tr)
       @ [LLM_response rid [] True False None]"

text \<open>
  \<open>handle_message\<close> runs as one task per inbound message
  (\<open>asyncio.create_task\<close>), on one event loop: a task runs alone until it
  awaits. The tasks share \<open>llm_client\<close> and \<open>response_id\<close>. A task that streams
  a response waits in two places: for the next event of the generator, and for
  \<open>send_json\<close> to return, after which it compares the \<open>response_id\<close> of its own
  request with the shared one.
\<close>

datatype task_state = Awaiting_event | Awaiting_send | Finished

record task =
  request_obj_response_id :: int
  events :: "out_msg list"
  at :: task_state

record session =
  llm_client :: "llm_service option"
  response_id :: int
  tasks :: "task list"
  sent :: "out_msg list"

definition init_session :: session where
  "init_session = \<lparr>llm_client = None, response_id = 0, tasks = [], sent = [Config_response]\<rparr>"

text \<open>The slice \<open>s[i:j]\<close> for \<open>0 \<le> i \<le> j\<close>, and the number as the handler formats it.\<close>

definition slice :: "nat \<Rightarrow> nat \<Rightarrow> string \<Rightarrow> string" where
  "slice i j s = take (j - i) (drop i s)"

definition format_number :: "string \<Rightarrow> string" where
  "format_number from_number =
     ''+1-'' @ slice 2 5 from_number @ ''-'' @ slice 5 8 from_number @ ''-'' @ drop 8 from_number"

text \<open>
  \<open>ResponseRequiredRequest(...)\<close> validates what it is given: the role of every
  utterance of the transcript is one of \<open>agent\<close>, \<open>user\<close> and \<open>system\<close>. When the
  validation fails, the exception is caught and logged by the handler and
  nothing is streamed.
\<close>

fun valid_utterance :: "utterance \<Rightarrow> bool" where
  "valid_utterance (Utterance role text) =
     (role = ''agent'' \<or> role = ''user'' \<or> role = ''system'')"

text \<open>
  The body of \<open>handle_message\<close> from the start of the task to its first wait.
  For a request that needs a response this is the point where the loop over
  \<open>draft_response\<close> is entered: the task is recorded with the events its
  generator is going to yield.
\<close>

definition handle_message :: "llm \<Rightarrow> 'a db \<Rightarrow> session \<Rightarrow> request_json \<Rightarrow> session" where
  "handle_message m d s req =
     (if interaction_type req = Some ''call_details'' then
        (let from_number = (case call_from_number req of None \<Rightarrow> [] | Some n \<Rightarrow> n) in
         if from_number \<noteq> [] then
           (let formatted_number = format_number from_number;
                usr = get_user d formatted_number in
            if user_truthy usr then
              (let c = set_user_info LlmService (Option.bind usr name) (Some formatted_number) in
               s\<lparr>llm_client := Some c, sent := sent s @ [draft_begin_message m c]\<rparr>)
            else
              (let c = set_user_info LlmService (Some ''there'') None in
               s\<lparr>llm_client := Some c, sent := sent s @ [draft_begin_message m c]\<rparr>))
         else s)
      else if interaction_type req = Some ''ping_pong'' then
        s\<lparr>sent := sent s @ [Ping_pong_response (timestamp req)]\<rparr>
      else if interaction_type req = Some ''update_only'' then s
      else if interaction_type req = Some ''response_required''
              \<or> interaction_type req = Some ''reminder_required'' then
        (let rid = (case req_response_id req of None \<Rightarrow> 0 | Some r \<Rightarrow> r);
             s1 = s\<lparr>response_id := rid\<rparr> in
         case llm_client s1 of
           None \<Rightarrow> s1
         | Some c \<Rightarrow>
             (let tr = (case transcript req of None \<Rightarrow> [] | Some t \<Rightarrow> t) in
              if list_all valid_utterance tr then
                s1\<lparr>tasks := tasks s1 @
                      [\<lparr>request_obj_response_id = rid, events = draft_response m c rid tr,
                        at = Awaiting_event\<rparr>]\<rparr>
              else s1))
      else s)"

text \<open>
  One turn of the streaming loop for the task at position \<open>i\<close>:
  the generator yields its next event and the event is sent, or the generator is
  exhausted and the loop ends; after the send, the task breaks out of the loop
  when \<open>request_obj.response_id < response_id\<close> and waits for the next event
  otherwise.
\<close>

definition resume :: "session \<Rightarrow> nat \<Rightarrow> session" where
  "resume s i =
     (if i < length (tasks s) then
        (let t = tasks s ! i in
         case at t of
           Finished \<Rightarrow> s
         | Awaiting_event \<Rightarrow>
             (case events t of
                [] \<Rightarrow> s\<lparr>tasks := (tasks s)[i := t\<lparr>at := Finished\<rparr>]\<rparr>
              | e # es \<Rightarrow>
                  s\<lparr>sent := sent s @ [e],
                    tasks := (tasks s)[i := t\<lparr>events := es, at := Awaiting_send\<rparr>]\<rparr>)
         | Awaiting_send \<Rightarrow>
             if request_obj_response_id t < response_id s
             then s\<lparr>tasks := (tasks s)[i := t\<lparr>at := Finished\<rparr>]\<rparr>
             else s\<lparr>tasks := (tasks s)[i := t\<lparr>at := Awaiting_event\<rparr>]\<rparr>)
      else s)"

text \<open>
  What the event loop does next: it starts the task of the next inbound
  message, or it lets a waiting task continue. Inbound messages are taken in
  the order of arrival; which waiting task continues is not determined.
\<close>

datatype action = Receive request_json | Resume nat

fun step :: "llm \<Rightarrow> 'a db \<Rightarrow> session \<Rightarrow> action \<Rightarrow> session" where
  "step m d s (Receive req) = handle_message m d s req"
| "step m d s (Resume i) = resume s i"

definition run :: "llm \<Rightarrow> 'a db \<Rightarrow> session \<Rightarrow> action list \<Rightarrow> session" where
  "run m d s schedule = foldl (step m d) s schedule"

section \<open>Observations and sample inputs\<close>

text \<open>What the theorems below read off a store, a schedule and a connection.\<close>

definition balance_of :: "'a db \<Rightarrow> string \<Rightarrow> 'a option" where
  "balance_of d account_id = Option.bind (get_account d account_id) balance"

definition all_digits :: "string \<Rightarrow> bool" where
  "all_digits s = list_all is_digit s"

definition dec_val :: "nat \<Rightarrow> string \<Rightarrow> nat" where
  "dec_val acc s = foldl (\<lambda>a c. 10 * a + digit_val c) acc s"

definition is_response_request :: "request_json \<Rightarrow> bool" where
  "is_response_request req =
     (interaction_type req = Some ''response_required''
      \<or> interaction_type req = Some ''reminder_required'')"

definition carried_id :: "request_json \<Rightarrow> int" where
  "carried_id req = (case req_response_id req of None \<Rightarrow> 0 | Some r \<Rightarrow> r)"

text \<open>The sequence numbers of the requests for a response, in the order of arrival.\<close>

fun requested :: "action list \<Rightarrow> int list" where
  "requested [] = []"
| "requested (Receive req # as) =
     (if is_response_request req then carried_id req # requested as else requested as)"
| "requested (Resume i # as) = requested as"

text \<open>Final events with sequence number \<open>r\<close>: on the connection, and still to come.\<close>

fun is_final :: "int \<Rightarrow> out_msg \<Rightarrow> bool" where
  "is_final r (LLM_response i text complete end_call number) = (complete \<and> i = r)"
| "is_final r _ = False"

definition finals :: "int \<Rightarrow> out_msg list \<Rightarrow> nat" where
  "finals r msgs = length (filter (is_final r) msgs)"

definition task_finals :: "int \<Rightarrow> task \<Rightarrow> nat" where
  "task_finals r t = (if at t = Finished then 0 else finals r (events t))"

definition weight :: "int \<Rightarrow> session \<Rightarrow> nat" where
  "weight r s = finals r (sent s) + sum_list (map (task_finals r) (tasks s))"

text \<open>
  The inbound messages that bring a final event with sequence number \<open>r\<close>: a
  request for a response that carries \<open>r\<close>, and for \<open>r = 0\<close> the call details,
  which bring the opening response.
\<close>

fun sources :: "int \<Rightarrow> action \<Rightarrow> nat" where
  "sources r (Receive req) =
     (if interaction_type req = Some ''call_details'' then (if r = 0 then 1 else 0)
      else if is_response_request req \<and> carried_id req = r then 1 else 0)"
| "sources r (Resume i) = 0"

definition final_sources :: "int \<Rightarrow> action list \<Rightarrow> nat" where
  "final_sources r schedule = sum_list (map (sources r) schedule)"

definition transcript_of :: "session \<Rightarrow> utterance list" where
  "transcript_of s = (case llm_client s of None \<Rightarrow> [] | Some c \<Rightarrow> messages (agent_swarm c))"

text \<open>Inbound messages as the telephony service sends them.\<close>

definition call_details :: "string option \<Rightarrow> request_json" where
  "call_details number =
     \<lparr>interaction_type = Some ''call_details'', call_from_number = number, timestamp = None,
      req_response_id = None, transcript = None\<rparr>"

definition ping_pong :: "int option \<Rightarrow> request_json" where
  "ping_pong t =
     \<lparr>interaction_type = Some ''ping_pong'', call_from_number = None, timestamp = t,
      req_response_id = None, transcript = None\<rparr>"

definition update_only :: "utterance list \<Rightarrow> request_json" where
  "update_only tr =
     \<lparr>interaction_type = Some ''update_only'', call_from_number = None, timestamp = None,
      req_response_id = None, transcript = Some tr\<rparr>"

definition response_required :: "int \<Rightarrow> utterance list \<Rightarrow> request_json" where
  "response_required rid tr =
     \<lparr>interaction_type = Some ''response_required'', call_from_number = None,
      timestamp = None, req_response_id = Some rid, transcript = Some tr\<rparr>"

text \<open>A small store, a language model with a fixed answer, and a call in progress.\<close>

definition demo_db :: "int db" where
  "demo_db =
     \<lparr>users = Some [(''+1-415-555-0100'',
                      \<lparr>name = Some ''Ada'', user_accounts = Some [''ACC001'']\<rparr>)],
      accounts = Some [(''ACC001'', \<lparr>balance = Some 500, statements = Some []\<rparr>),
                       (''ACC002'', \<lparr>balance = Some 20, statements = Some []\<rparr>)],
      payments = Some [(''PAY001'', \<lparr>from_account = ''ACC002'', to_account = ''ACC001'',
                         amount = 5, date = ''2024-01-01'', status = ''Completed''\<rparr>)]\<rparr>"

text \<open>The doubles \<open>0.1\<close>, \<open>0.2\<close>, \<open>0.4\<close> and \<open>0.5\<close>, and a store whose balances are floats.\<close>

definition double_0_1 :: double where
  "double_0_1 = Double 3602879701896397 (- 55)"

definition double_0_2 :: double where
  "double_0_2 = Double 3602879701896397 (- 54)"

definition double_0_4 :: double where
  "double_0_4 = Double 3602879701896397 (- 53)"

definition double_0_5 :: double where
  "double_0_5 = Double 1 (- 1)"

definition float_db :: "double db" where
  "float_db =
     \<lparr>users = Some [],
      accounts = Some [(''ACC001'', \<lparr>balance = Some double_0_2, statements = Some []\<rparr>),
                       (''ACC002'', \<lparr>balance = Some double_0_4, statements = Some []\<rparr>)],
      payments = Some []\<rparr>"

definition demo_llm :: llm where
  "demo_llm =
     \<lparr>begin_sentence = (\<lambda>c. ''Hello''), completion = (\<lambda>c rid tr. [''One moment''])\<rparr>"

definition demo_turn :: "utterance list" where
  "demo_turn = [Utterance ''user'' ''What is my balance?'']"

definition demo_call :: "action list" where
  "demo_call =
     [Receive (call_details (Some ''+14155550100'')), Receive (response_required 1 demo_turn)]"

definition demo_in_flight :: session where
  "demo_in_flight = run demo_llm demo_db init_session (demo_call @ [Resume 0, Resume 0])"

section \<open>Payment identifiers are fresh\<close>

text \<open>
  Reading back what \<open>format_03d\<close> writes gives the number again, and removing
  \<open>PAY\<close> from the new identifier leaves its digits. So an identifier equal to
  the new one would have raised the maximum above the number it was built from.
\<close>

lemma of_char_digit_char: "d < 10 \<Longrightarrow> (of_char (digit_char d) :: nat) = 48 + d"
  by (simp add: digit_char_def)

lemma is_digit_digit_char: "d < 10 \<Longrightarrow> is_digit (digit_char d)"
  by (simp add: is_digit_def of_char_digit_char)

lemma digit_val_digit_char: "d < 10 \<Longrightarrow> digit_val (digit_char d) = d"
  by (simp add: digit_val_def of_char_digit_char)

lemma is_digit_zero: "is_digit (CHR ''0'')" "digit_val (CHR ''0'') = 0"
  by (simp_all add: is_digit_def digit_val_def)

lemma is_digit_not_space: "is_digit c \<Longrightarrow> \<not> is_space c"
  by (auto simp: is_digit_def is_space_def)

lemma is_digit_neq:
  assumes "is_digit c"
  shows "c \<noteq> CHR ''_''" "c \<noteq> CHR ''P''" "c \<noteq> CHR ''-''" "c \<noteq> CHR ''+''"
  using assms by (auto simp: is_digit_def)

lemma all_digits_simps [simp]:
  "all_digits []" "all_digits (c # s) = (is_digit c \<and> all_digits s)"
  "all_digits (s @ t) = (all_digits s \<and> all_digits t)"
  by (simp_all add: all_digits_def)

lemma dec_val_simps [simp]:
  "dec_val acc [] = acc" "dec_val acc (c # s) = dec_val (10 * acc + digit_val c) s"
  "dec_val acc (s @ t) = dec_val (dec_val acc s) t"
  by (simp_all add: dec_val_def)

lemma all_digits_dec: "all_digits (dec n)"
proof (induction n rule: dec.induct)
  case (1 n)
  show ?case
  proof (cases "n < 10")
    case True
    then show ?thesis by (subst dec.simps) (simp add: is_digit_digit_char)
  next
    case False
    have "is_digit (digit_char (n mod 10))" by (rule is_digit_digit_char) simp
    with False 1 show ?thesis by (subst dec.simps) simp
  qed
qed

lemma dec_nonempty: "dec n \<noteq> []"
  by (subst dec.simps) simp

lemma dec_val_dec: "dec_val 0 (dec n) = n"
proof (induction n rule: dec.induct)
  case (1 n)
  show ?case
  proof (cases "n < 10")
    case True
    then show ?thesis
      by (subst dec.simps) (simp add: digit_val_digit_char)
  next
    case False
    have "digit_val (digit_char (n mod 10)) = n mod 10"
      by (rule digit_val_digit_char) simp
    with False 1 show ?thesis
      by (subst dec.simps) simp
  qed
qed

lemma all_digits_zeros: "all_digits (replicate k (CHR ''0''))"
  by (induction k) (simp_all add: is_digit_zero)

lemma dec_val_zeros: "dec_val 0 (replicate k (CHR ''0'')) = 0"
  by (induction k) (simp_all add: is_digit_zero)

lemma py_digits_digits:
  "all_digits s \<Longrightarrow> after_digit \<or> s \<noteq> [] \<Longrightarrow> py_digits acc after_digit s = Some (dec_val acc s)"
proof (induction s arbitrary: acc after_digit)
  case Nil
  then show ?case by simp
next
  case (Cons c s)
  then have c: "is_digit c" and s: "all_digits s" by simp_all
  have "py_digits (10 * acc + digit_val c) True s = Some (dec_val (10 * acc + digit_val c) s)"
    using s by (intro Cons.IH) simp_all
  then show ?case using c is_digit_neq(1) [OF c] by simp
qed

lemma dropWhile_id: "s \<noteq> [] \<Longrightarrow> \<not> P (hd s) \<Longrightarrow> dropWhile P s = s"
  by (cases s) simp_all

lemma strip_digits:
  assumes "all_digits s"
  shows "strip s = s"
proof (cases "s = []")
  case True
  then show ?thesis by (simp add: strip_def)
next
  case False
  have ns: "\<And>c. c \<in> set s \<Longrightarrow> \<not> is_space c"
    using assms by (auto simp: all_digits_def list_all_iff is_digit_not_space)
  have a: "dropWhile is_space s = s"
    using False ns by (intro dropWhile_id) simp_all
  have "hd (rev s) \<in> set s" using False by (simp add: hd_rev)
  then have b: "dropWhile is_space (rev s) = rev s"
    using False ns by (intro dropWhile_id) simp_all
  show ?thesis by (simp add: strip_def a b)
qed

lemma py_int_digits:
  assumes "all_digits s" "s \<noteq> []"
  shows "py_int s = Some (int (dec_val 0 s))"
proof -
  obtain c cs where s: "s = c # cs" using assms(2) by (cases s) auto
  then have c: "is_digit c" using assms(1) by simp
  have st: "strip s = c # cs" using strip_digits [OF assms(1)] s by simp
  have "py_digits 0 False (c # cs) = Some (dec_val 0 (c # cs))"
    using assms s by (intro py_digits_digits) simp_all
  then show ?thesis
    unfolding py_int_def st using is_digit_neq(3,4) [OF c] s
    by (simp del: py_digits.simps dec_val_simps)
qed

lemma all_digits_format_03d: "0 \<le> n \<Longrightarrow> all_digits (format_03d n)"
  by (simp add: format_03d_def zero_pad_def all_digits_zeros all_digits_dec)

lemma format_03d_nonempty: "format_03d n \<noteq> []"
  by (simp add: format_03d_def zero_pad_def dec_nonempty)

lemma py_int_format_03d:
  assumes "0 \<le> n"
  shows "py_int (format_03d n) = Some n"
proof -
  have "dec_val 0 (format_03d n) = nat n"
    using assms by (simp add: format_03d_def zero_pad_def dec_val_zeros dec_val_dec)
  then show ?thesis
    using py_int_digits [OF all_digits_format_03d [OF assms] format_03d_nonempty] assms by simp
qed

lemma replace_PAY_digits: "all_digits s \<Longrightarrow> replace_PAY s = s"
  by (induction s) (auto simp: is_digit_neq)

lemma max_payment_num_ge: "m \<le> max_payment_num m ids"
proof (induction ids arbitrary: m)
  case Nil
  then show ?case by simp
next
  case (Cons i ids)
  show ?case
  proof (cases "py_int (replace_PAY i)")
    case None
    then show ?thesis using Cons by simp
  next
    case (Some k)
    have "max m k \<le> max_payment_num (max m k) ids" by (rule Cons)
    then show ?thesis using Some by simp
  qed
qed

lemma max_payment_num_bound:
  "i \<in> set ids \<Longrightarrow> py_int (replace_PAY i) = Some k \<Longrightarrow> k \<le> max_payment_num m ids"
proof (induction ids arbitrary: m)
  case Nil
  then show ?case by simp
next
  case (Cons j ids)
  show ?case
  proof (cases "i = j")
    case True
    have "max m k \<le> max_payment_num (max m k) ids" by (rule max_payment_num_ge)
    then show ?thesis using True Cons.prems by simp
  next
    case False
    then have "i \<in> set ids" using Cons.prems by simp
    then show ?thesis using Cons.IH Cons.prems(2) by (cases "py_int (replace_PAY j)") simp_all
  qed
qed

lemma generate_payment_id_fresh: "generate_payment_id d \<notin> fst ` set (get_payments d)"
proof
  let ?ids = "map fst (get_payments d)"
  let ?m = "max_payment_num 0 ?ids"
  assume "generate_payment_id d \<in> fst ` set (get_payments d)"
  then have mem: "''PAY'' @ format_03d (?m + 1) \<in> set ?ids"
    by (simp add: generate_payment_id_def)
  have m0: "0 \<le> ?m + 1" using max_payment_num_ge [of 0 ?ids] by simp
  have "replace_PAY (''PAY'' @ format_03d (?m + 1)) = format_03d (?m + 1)"
    using replace_PAY_digits [OF all_digits_format_03d [OF m0]] by simp
  then have "py_int (replace_PAY (''PAY'' @ format_03d (?m + 1))) = Some (?m + 1)"
    using py_int_format_03d [OF m0] by simp
  from max_payment_num_bound [OF mem this, of 0] show False by simp
qed

section \<open>Transfer of funds\<close>

lemma get_account_set_balance:
  "get_account (set_balance d k b) k' =
     (if k' = k then map_option (\<lambda>a. a\<lparr>balance := Some b\<rparr>) (get_account d k)
      else get_account d k')"
  by (cases "accounts d")
     (auto simp: get_account_def set_balance_def map_of_map_entry split: option.splits)

lemma get_payments_set_balance: "get_payments (set_balance d k b) = get_payments d"
  by (simp add: get_payments_def set_balance_def)

lemma get_payment_set_balance: "get_payment (set_balance d k b) k' = get_payment d k'"
  by (simp add: get_payment_def get_payments_set_balance)

lemma get_account_update_payment: "get_account (update_payment d k v) k' = get_account d k'"
  by (simp add: get_account_def update_payment_def)

lemma get_payment_update_payment:
  "get_payment (update_payment d k v) k' = (if k' = k then Some v else get_payment d k')"
  by (simp add: get_payment_def update_payment_def get_payments_def update_conv')

lemma get_payment_None_iff: "get_payment d k = None \<longleftrightarrow> k \<notin> fst ` set (get_payments d)"
  by (simp add: get_payment_def map_of_eq_None_iff)

lemma transfer_funds_cases:
  assumes "transfer_funds today d from_id to_id amt = (Inr (Some pid), d')"
  obtains from_acc to_acc b b' where
    "get_account d from_id = Some from_acc" "get_account d to_id = Some to_acc"
    "\<not> balance_or_0 from_acc < amt"
    "balance from_acc = Some b"
    "balance_of (set_balance d from_id (b - amt)) to_id = Some b'"
    "pid = generate_payment_id (set_balance (set_balance d from_id (b - amt)) to_id (b' + amt))"
    "d' = update_payment (set_balance (set_balance d from_id (b - amt)) to_id (b' + amt)) pid
            \<lparr>from_account = from_id, to_account = to_id, amount = amt,
             date = today, status = ''Completed''\<rparr>"
  using assms unfolding transfer_funds_def balance_of_def
  by (auto simp: Let_def split: option.splits if_splits)

text \<open>
  C9: \<open>transfer_funds\<close> returns \<open>None\<close> and raises nothing whenever the source
  account or the destination account does not exist or the balance of the source
  is less than the amount, and then the store (every balance and every payment)
  is the one it was called with.
\<close>

theorem transfer_funds_failure_unchanged:
  fixes d :: "('a::{zero,ord,plus,minus}) db"
  assumes "get_account d from_id = None \<or> get_account d to_id = None \<or>
           (\<exists>a. get_account d from_id = Some a \<and> balance_or_0 a < amt)"
  shows "transfer_funds today d from_id to_id amt = (Inr None, d)"
  using assms unfolding transfer_funds_def
  by (auto split: option.splits)

theorem transfer_funds_failure_unchanged_witness:
  "transfer_funds ''2024-02-02'' demo_db ''ACC001'' ''ACC002'' 1000 = (Inr None, demo_db) \<and>
   transfer_funds ''2024-02-02'' demo_db ''ACC009'' ''ACC002'' 10 = (Inr None, demo_db)"
proof -
  have a: "get_account demo_db ''ACC001'' = Some \<lparr>balance = Some 500, statements = Some []\<rparr>"
    by (simp add: get_account_def demo_db_def)
  have b: "balance_or_0 \<lparr>balance = Some (500::int), statements = Some []\<rparr> < 1000"
    by (simp add: balance_or_0_def)
  have c: "get_account demo_db ''ACC009'' = None"
    by (simp add: get_account_def demo_db_def)
  show ?thesis
    using transfer_funds_failure_unchanged
        [of demo_db "''ACC001''" "''ACC002''" 1000 "''2024-02-02''"]
      transfer_funds_failure_unchanged
        [of demo_db "''ACC009''" "''ACC002''" 10 "''2024-02-02''"]
      a b c by simp
qed

text \<open>
  C10, as the code has it: when \<open>transfer_funds\<close> between two distinct accounts
  returns a payment identifier, both accounts existed with a balance, the new
  balance of the source is the difference the code computes from the old one
  and the amount, the new balance of the destination is the sum the code
  computes from the old one and the amount, the identifier was not a key of the
  payments before, the payments now hold under it a record with that amount and
  the status \<open>Completed\<close>, and every other payment is as it was. The two new
  balances add up to what the two old ones did when the arithmetic is exact
  (addition associative and commutative, subtraction undone by addition), as
  it is for integers and is not for floats.
\<close>

theorem transfer_funds_success:
  fixes d :: "('a::{zero,ord,plus,minus}) db"
  assumes "transfer_funds today d from_id to_id amt = (Inr (Some pid), d')"
    and "from_id \<noteq> to_id"
  shows "\<exists>bf bt. balance_of d from_id = Some bf \<and> balance_of d to_id = Some bt \<and>
           balance_of d' from_id = Some (bf - amt) \<and>
           balance_of d' to_id = Some (bt + amt) \<and>
           ((\<forall>x y z :: 'a. (x + y) + z = x + (y + z)) \<and> (\<forall>x y :: 'a. x + y = y + x) \<and>
            (\<forall>x y :: 'a. (x - y) + y = x)
              \<longrightarrow> (bf - amt) + (bt + amt) = bf + bt) \<and>
           pid \<notin> fst ` set (get_payments d) \<and>
           get_payment d' pid =
             Some \<lparr>from_account = from_id, to_account = to_id, amount = amt,
                   date = today, status = ''Completed''\<rparr> \<and>
           (\<forall>k. k \<noteq> pid \<longrightarrow> get_payment d' k = get_payment d k)"
proof -
  from assms(1) obtain from_acc to_acc b b' where
    fa: "get_account d from_id = Some from_acc" and ta: "get_account d to_id = Some to_acc"
    and bf: "balance from_acc = Some b"
    and bt: "balance_of (set_balance d from_id (b - amt)) to_id = Some b'"
    and pid: "pid = generate_payment_id
                (set_balance (set_balance d from_id (b - amt)) to_id (b' + amt))"
    and d': "d' = update_payment
                (set_balance (set_balance d from_id (b - amt)) to_id (b' + amt)) pid
                \<lparr>from_account = from_id, to_account = to_id, amount = amt,
                 date = today, status = ''Completed''\<rparr>"
    by (rule transfer_funds_cases)
  have bt0: "balance_of d to_id = Some b'"
    using bt assms(2) by (simp add: balance_of_def get_account_set_balance)
  have bf0: "balance_of d from_id = Some b"
    using fa bf by (simp add: balance_of_def)
  have bf1: "balance_of d' from_id = Some (b - amt)"
    using fa assms(2)
    by (simp add: d' balance_of_def get_account_update_payment get_account_set_balance)
  have bt1: "balance_of d' to_id = Some (b' + amt)"
    using ta assms(2)
    by (simp add: d' balance_of_def get_account_update_payment get_account_set_balance)
  have fresh: "pid \<notin> fst ` set (get_payments d)"
    using generate_payment_id_fresh
      [of "set_balance (set_balance d from_id (b - amt)) to_id (b' + amt)"]
    by (simp add: pid get_payments_set_balance)
  have rec: "get_payment d' pid =
             Some \<lparr>from_account = from_id, to_account = to_id, amount = amt,
                   date = today, status = ''Completed''\<rparr>"
    by (simp add: d' get_payment_update_payment)
  have keep: "\<forall>k. k \<noteq> pid \<longrightarrow> get_payment d' k = get_payment d k"
    by (simp add: d' get_payment_update_payment get_payment_set_balance)
  have sum: "(\<forall>x y z :: 'a. (x + y) + z = x + (y + z)) \<and> (\<forall>x y :: 'a. x + y = y + x) \<and>
            (\<forall>x y :: 'a. (x - y) + y = x)
              \<longrightarrow> (b - amt) + (b' + amt) = b + b'"
  proof
    assume laws: "(\<forall>x y z :: 'a. (x + y) + z = x + (y + z)) \<and> (\<forall>x y :: 'a. x + y = y + x) \<and>
            (\<forall>x y :: 'a. (x - y) + y = x)"
    then have assoc: "((b - amt) + amt) + b' = (b - amt) + (amt + b')"
      and comm: "b' + amt = amt + b'" and undo: "(b - amt) + amt = b"
      by blast+
    have "(b - amt) + (b' + amt) = (b - amt) + (amt + b')" by (simp only: comm)
    also have "\<dots> = ((b - amt) + amt) + b'" by (simp only: assoc)
    also have "\<dots> = b + b'" by (simp only: undo)
    finally show "(b - amt) + (b' + amt) = b + b'" .
  qed
  show ?thesis using bf0 bt0 bf1 bt1 fresh rec keep sum by blast
qed

lemma demo_transfer:
  "transfer_funds ''2024-02-02'' demo_db ''ACC001'' ''ACC002'' 100 =
   (Inr (Some ''PAY002''),
     \<lparr>users = Some [(''+1-415-555-0100'',
                      \<lparr>name = Some ''Ada'', user_accounts = Some [''ACC001'']\<rparr>)],
      accounts = Some [(''ACC001'', \<lparr>balance = Some 400, statements = Some []\<rparr>),
                       (''ACC002'', \<lparr>balance = Some 120, statements = Some []\<rparr>)],
      payments = Some [(''PAY001'', \<lparr>from_account = ''ACC002'', to_account = ''ACC001'',
                         amount = 5, date = ''2024-01-01'', status = ''Completed''\<rparr>),
                       (''PAY002'', \<lparr>from_account = ''ACC001'', to_account = ''ACC002'',
                         amount = 100, date = ''2024-02-02'', status = ''Completed''\<rparr>)]\<rparr>)"
  by code_simp

theorem transfer_funds_success_witness:
  "balance_of demo_db ''ACC001'' = Some 500 \<and> balance_of demo_db ''ACC002'' = Some 20 \<and>
   (\<exists>d'. transfer_funds ''2024-02-02'' demo_db ''ACC001'' ''ACC002'' 100
            = (Inr (Some ''PAY002''), d') \<and>
      balance_of d' ''ACC001'' = Some 400 \<and> balance_of d' ''ACC002'' = Some 120 \<and>
      (500 - 100) + (20 + 100) = (500 + 20 :: int) \<and>
      ''PAY002'' \<notin> fst ` set (get_payments demo_db) \<and>
      get_payment d' ''PAY002'' =
        Some \<lparr>from_account = ''ACC001'', to_account = ''ACC002'', amount = 100,
              date = ''2024-02-02'', status = ''Completed''\<rparr> \<and>
      get_payment d' ''PAY001'' = get_payment demo_db ''PAY001'')"
proof -
  have b: "balance_of demo_db ''ACC001'' = Some 500" "balance_of demo_db ''ACC002'' = Some 20"
    by (simp_all add: balance_of_def get_account_def demo_db_def)
  have ne: "''ACC001'' \<noteq> ''ACC002''" by simp
  have laws: "(\<forall>x y z :: int. (x + y) + z = x + (y + z)) \<and> (\<forall>x y :: int. x + y = y + x) \<and>
            (\<forall>x y :: int. (x - y) + y = x)"
    by simp
  from transfer_funds_success [OF demo_transfer ne] b laws show ?thesis
    unfolding demo_transfer by auto
qed

text \<open>
  C10 as stated fails for floats: a transfer of \<open>0.1\<close> from an account with \<open>0.2\<close>
  to an account with \<open>0.4\<close> succeeds and leaves \<open>0.1\<close> and \<open>0.5\<close>. The destination
  has not grown by the amount (\<open>0.5 - 0.4\<close> is not \<open>0.1\<close>), and the two balances
  add up to \<open>0.6\<close> afterwards and to \<open>0.6000000000000001\<close> before.
\<close>

theorem transfer_funds_float_sum_changes:
  "fst (transfer_funds ''2024-02-02'' float_db ''ACC001'' ''ACC002'' double_0_1)
     = Inr (Some ''PAY001'') \<and>
   balance_of float_db ''ACC001'' = Some double_0_2 \<and>
   balance_of float_db ''ACC002'' = Some double_0_4 \<and>
   balance_of (snd (transfer_funds ''2024-02-02'' float_db ''ACC001'' ''ACC002'' double_0_1))
     ''ACC001'' = Some double_0_1 \<and>
   balance_of (snd (transfer_funds ''2024-02-02'' float_db ''ACC001'' ''ACC002'' double_0_1))
     ''ACC002'' = Some double_0_5 \<and>
   double_0_5 - double_0_4 \<noteq> double_0_1 \<and>
   double_0_1 + double_0_5 = Double 5404319552844595 (- 53) \<and>
   double_0_2 + double_0_4 = Double 1351079888211149 (- 51) \<and>
   double_0_1 + double_0_5 \<noteq> double_0_2 + double_0_4"
  by code_simp

section \<open>Hand-offs between agents\<close>

text \<open>
  C3: the service starts with the triage agent, it has one current agent at any
  time, and a hand-off function called by the current agent leaves an agent of
  the declared transition set of the caller as the current one: the agent
  changes along a declared edge or not at all, and the edges the code offers
  are those of the specification (triage to accounts, payments and
  applications; accounts to payments; payments and applications to triage).
\<close>

theorem hand_off_state_machine:
  "current_agent agent_service_init = TriageAgent \<and>
   (\<exists>!a. current_agent svc = a) \<and>
   (f \<in> set (agent_functions (current_agent svc)) \<longrightarrow> is_hand_off f \<longrightarrow>
      current_agent (invoke f svc) \<in> declared_transitions (current_agent svc)) \<and>
   (current_agent (invoke f svc) \<noteq> current_agent svc \<longrightarrow>
      current_agent (invoke f svc) \<in> declared_transitions (current_agent svc)) \<and>
   (\<forall>a. declared_transitions a =
      (\<lambda>g. current_agent (call_function g svc)) ` set (filter is_hand_off (agent_functions a)))"
proof -
  have init: "current_agent agent_service_init = TriageAgent"
    by (simp add: agent_service_init_def)
  have one: "\<exists>!a. current_agent svc = a" by simp
  have edge: "g \<in> set (agent_functions a) \<Longrightarrow> is_hand_off g \<Longrightarrow>
      current_agent (call_function g svc) \<in> declared_transitions a" for g a
    by (cases a; cases g)
       (simp_all add: transfer_to_accounts_def transfer_to_payments_def
          transfer_to_applications_def transfer_back_to_triage_def)
  have keep: "\<not> is_hand_off g \<Longrightarrow> call_function g svc = svc" for g
    by (cases g) simp_all
  have a: "f \<in> set (agent_functions (current_agent svc)) \<longrightarrow> is_hand_off f \<longrightarrow>
      current_agent (invoke f svc) \<in> declared_transitions (current_agent svc)"
    using edge by (simp add: invoke_def)
  have b: "current_agent (invoke f svc) \<noteq> current_agent svc \<longrightarrow>
      current_agent (invoke f svc) \<in> declared_transitions (current_agent svc)"
    using edge [of f "current_agent svc"] keep [of f]
    by (cases "is_hand_off f") (auto simp: invoke_def)
  have c: "declared_transitions a =
      (\<lambda>g. current_agent (call_function g svc)) ` set (filter is_hand_off (agent_functions a))"
    for a
    by (cases a)
       (auto simp: transfer_to_accounts_def transfer_to_payments_def
          transfer_to_applications_def transfer_back_to_triage_def)
  show ?thesis using init one a b c by blast
qed

theorem hand_off_state_machine_witness:
  "Transfer_to_accounts \<in> set (agent_functions (current_agent agent_service_init)) \<and>
   is_hand_off Transfer_to_accounts \<and>
   current_agent (invoke Transfer_to_accounts agent_service_init)
     \<in> declared_transitions (current_agent agent_service_init) \<and>
   current_agent (invoke Transfer_to_accounts agent_service_init) = AccountsAgent"
proof -
  have h1: "Transfer_to_accounts \<in> set (agent_functions (current_agent agent_service_init))"
    by (simp add: agent_service_init_def)
  have h2: "is_hand_off Transfer_to_accounts" by simp
  have e: "current_agent (invoke Transfer_to_accounts agent_service_init) = AccountsAgent"
    by (simp add: invoke_def agent_service_init_def transfer_to_accounts_def)
  show ?thesis
    using h1 h2 e
      hand_off_state_machine [where svc = agent_service_init and f = Transfer_to_accounts]
    by blast
qed

section \<open>The session: one message at a time\<close>

lemma run_Cons: "run m d s (a # schedule) = run m d (step m d s a) schedule"
  by (simp add: run_def)

lemma demo_in_flight_eval:
  "demo_in_flight =
     \<lparr>llm_client = Some \<lparr>user_name = Some ''Ada'', user_phone = Some ''+1-415-555-0100'',
                          agent_swarm = \<lparr>messages = [], current_agent = TriageAgent\<rparr>\<rparr>,
      response_id = 1,
      tasks = [\<lparr>request_obj_response_id = 1, events = [LLM_response 1 [] True False None],
                at = Awaiting_event\<rparr>],
      sent = [Config_response, LLM_response 0 ''Hello'' True False None,
              LLM_response 1 ''One moment'' False False None]\<rparr>"
  by code_simp

text \<open>
  C7: a \<open>ping_pong\<close> message with timestamp \<open>T\<close> adds exactly one \<open>ping_pong\<close>
  reply with the same \<open>T\<close> to the connection and changes nothing else of the
  session, whatever responses are being streamed at that moment.
\<close>

theorem ping_pong_echo:
  "interaction_type req = Some ''ping_pong'' \<Longrightarrow>
   handle_message m d s req = s\<lparr>sent := sent s @ [Ping_pong_response (timestamp req)]\<rparr>"
  by (simp add: handle_message_def)

theorem ping_pong_echo_witness:
  "interaction_type (ping_pong (Some 1700000000)) = Some ''ping_pong'' \<and>
   handle_message demo_llm demo_db demo_in_flight (ping_pong (Some 1700000000))
     = demo_in_flight\<lparr>sent := sent demo_in_flight @ [Ping_pong_response (Some 1700000000)]\<rparr> \<and>
   tasks demo_in_flight \<noteq> []"
proof -
  have h: "interaction_type (ping_pong (Some 1700000000)) = Some ''ping_pong''"
    by (simp add: ping_pong_def)
  have t: "tasks demo_in_flight \<noteq> []"
    by (simp add: demo_in_flight_eval)
  have "timestamp (ping_pong (Some 1700000000)) = Some 1700000000"
    by (simp add: ping_pong_def)
  then show ?thesis
    using h t ping_pong_echo [OF h, of demo_llm demo_db demo_in_flight] by simp
qed

text \<open>
  C8, as the code has it: an \<open>update_only\<close> message leaves the whole session as
  it is. Nothing is sent and no response is scheduled; the turns it carries are
  not stored anywhere, so the transcript is neither reordered nor extended.
\<close>

theorem update_only_no_effect:
  "interaction_type req = Some ''update_only'' \<Longrightarrow> handle_message m d s req = s"
  by (simp add: handle_message_def)

theorem update_only_no_effect_witness:
  "interaction_type (update_only [Utterance ''user'' ''Hi'']) = Some ''update_only'' \<and>
   handle_message demo_llm demo_db demo_in_flight (update_only [Utterance ''user'' ''Hi''])
     = demo_in_flight"
proof -
  have h: "interaction_type (update_only [Utterance ''user'' ''Hi'']) = Some ''update_only''"
    by (simp add: update_only_def)
  show ?thesis
    using h update_only_no_effect [OF h, of demo_llm demo_db demo_in_flight] by simp
qed

text \<open>
  C8 as stated fails: after an \<open>update_only\<close> message that carries one turn, the
  transcript of the session is not the old one followed by that turn.
\<close>

theorem update_only_appends_nothing:
  "transcript_of (handle_message demo_llm demo_db demo_in_flight
      (update_only [Utterance ''user'' ''Hi'']))
   \<noteq> transcript_of demo_in_flight @ [Utterance ''user'' ''Hi'']"
  by code_simp

text \<open>
  C6, as the code has it: a request for a response that arrives while no client
  is initialised sends nothing, schedules nothing and leaves the client
  uninitialised, but \<open>response_id\<close> is set to the number the request carries
  before the client is looked at.
\<close>

theorem request_without_client:
  "llm_client s = None \<Longrightarrow> is_response_request req \<Longrightarrow>
   handle_message m d s req = s\<lparr>response_id := carried_id req\<rparr>"
  by (auto simp: handle_message_def is_response_request_def carried_id_def)

theorem request_without_client_witness:
  "llm_client init_session = None \<and>
   is_response_request (response_required 5 demo_turn) \<and>
   carried_id (response_required 5 demo_turn) = 5 \<and>
   handle_message demo_llm demo_db init_session (response_required 5 demo_turn)
     = init_session\<lparr>response_id := 5\<rparr>"
proof -
  have h1: "llm_client init_session = None"
    by (simp add: init_session_def)
  have h2: "is_response_request (response_required 5 demo_turn)"
    by (simp add: is_response_request_def response_required_def)
  have c: "carried_id (response_required 5 demo_turn) = 5"
    by (simp add: carried_id_def response_required_def)
  show ?thesis
    using h1 h2 c request_without_client [OF h1 h2, of demo_llm demo_db] by simp
qed

text \<open>
  C6 as stated fails: the dropped request changes the session, here a fresh one
  that receives a request with number 5.
\<close>

theorem dropped_request_changes_session:
  "llm_client init_session = None \<and>
   handle_message demo_llm demo_db init_session (response_required 5 demo_turn) \<noteq> init_session"
  by code_simp

text \<open>
  C4 fails on the code for call details without a caller number (the key absent
  or the number empty): the handler does nothing at all, no client is created
  and no opening response is sent; a request for a response that follows is
  dropped and the connection carries the configuration only.
\<close>

theorem call_details_without_number:
  "handle_message m d s (call_details None) = s \<and>
   handle_message m d s (call_details (Some [])) = s \<and>
   sent (run demo_llm demo_db init_session
           [Receive (call_details None), Receive (response_required 1 demo_turn), Resume 0])
     = [Config_response]"
proof -
  have a: "handle_message m d s (call_details None) = s"
    by (simp add: handle_message_def call_details_def)
  have b: "handle_message m d s (call_details (Some [])) = s"
    by (simp add: handle_message_def call_details_def)
  have c: "sent (run demo_llm demo_db init_session
           [Receive (call_details None), Receive (response_required 1 demo_turn), Resume 0])
     = [Config_response]"
    by code_simp
  show ?thesis using a b c by simp
qed

section \<open>The session: interleaved responses\<close>

subsection \<open>The recorded sequence number\<close>

lemma response_id_handle_message:
  "response_id (handle_message m d s req) =
     (if is_response_request req then carried_id req else response_id s)"
  by (auto simp: handle_message_def is_response_request_def carried_id_def Let_def
      split: option.splits)

lemma response_id_resume: "response_id (resume s i) = response_id s"
  by (simp add: resume_def Let_def split: task_state.splits list.splits)

lemma response_id_run:
  "response_id (run m d s schedule) = last (response_id s # requested schedule)"
proof (induction schedule arbitrary: s)
  case Nil
  then show ?case by (simp add: run_def)
next
  case (Cons a schedule)
  then show ?case
    using Cons [of "step m d s a"]
    by (cases a) (simp_all add: run_Cons response_id_handle_message response_id_resume)
qed

lemma requested_append: "requested (p @ q) = requested p @ requested q"
  by (induction p rule: requested.induct) simp_all

lemma sorted_last_le:
  fixes xs :: "int list"
  assumes "sorted (xs @ ys)" "xs \<noteq> []"
  shows "last xs \<le> last (xs @ ys)"
proof (cases "ys = []")
  case True
  then show ?thesis by simp
next
  case False
  then have "last (xs @ ys) \<in> set ys" by simp
  moreover have "last xs \<in> set xs" using assms(2) by simp
  ultimately show ?thesis using assms(1) by (simp add: sorted_append)
qed

text \<open>
  C2, as the code has it: the handler does not validate the sequence number.
  The recorded \<open>response_id\<close> is at every moment the number of the latest
  request for a response (the initial value before the first one), whatever the
  value before; so it does not decrease over a run in which the numbers of the
  requests arrive in non-decreasing order.
\<close>

theorem response_id_last_requested:
  "response_id (run m d s schedule) = last (response_id s # requested schedule) \<and>
   (sorted (response_id s # requested (p @ q)) \<longrightarrow>
      response_id (run m d s p) \<le> response_id (run m d s (p @ q)))"
proof -
  have "sorted (response_id s # requested (p @ q)) \<Longrightarrow>
      response_id (run m d s p) \<le> response_id (run m d s (p @ q))"
    using sorted_last_le [of "response_id s # requested p" "requested q"]
    by (simp add: response_id_run requested_append del: sorted_simps last.simps)
  then show ?thesis using response_id_run by blast
qed

theorem response_id_last_requested_witness:
  "sorted (response_id init_session
           # requested (demo_call @ [Receive (response_required 2 demo_turn)])) \<and>
   response_id (run demo_llm demo_db init_session demo_call)
     \<le> response_id (run demo_llm demo_db init_session
          (demo_call @ [Receive (response_required 2 demo_turn)])) \<and>
   response_id (run demo_llm demo_db init_session
          (demo_call @ [Receive (response_required 2 demo_turn)])) = 2"
proof -
  have h: "sorted (response_id init_session
           # requested (demo_call @ [Receive (response_required 2 demo_turn)]))"
    by code_simp
  have l: "last (response_id init_session
           # requested (demo_call @ [Receive (response_required 2 demo_turn)])) = 2"
    by code_simp
  show ?thesis
    using h l
      response_id_last_requested
        [where s = init_session and m = demo_llm and d = demo_db and p = demo_call
           and q = "[Receive (response_required 2 demo_turn)]"
           and schedule = "demo_call @ [Receive (response_required 2 demo_turn)]"]
    by simp
qed

text \<open>
  C2 as stated fails: a request with number 3 after one with number 5 lowers
  the recorded value, and it is served: its first event is sent.
\<close>

theorem response_id_decreases:
  "response_id (run demo_llm demo_db init_session
      [Receive (call_details (Some ''+14155550100'')), Receive (response_required 5 demo_turn),
       Receive (response_required 3 demo_turn)])
   < response_id (run demo_llm demo_db init_session
      [Receive (call_details (Some ''+14155550100'')), Receive (response_required 5 demo_turn)]) \<and>
   sent (run demo_llm demo_db init_session
      [Receive (call_details (Some ''+14155550100'')), Receive (response_required 5 demo_turn),
       Receive (response_required 3 demo_turn), Resume 1])
   = [Config_response, LLM_response 0 ''Hello'' True False None,
      LLM_response 3 ''One moment'' False False None]"
  by code_simp

subsection \<open>Final events on the connection\<close>

lemma finals_simps [simp]:
  "finals r [] = 0"
  "finals r (x # xs) = (if is_final r x then 1 else 0) + finals r xs"
  "finals r (xs @ ys) = finals r xs + finals r ys"
  by (simp_all add: finals_def)

lemma finals_draft_response: "finals r (draft_response m c rid tr) = (if rid = r then 1 else 0)"
proof -
  have "finals r (map (\<lambda>text. LLM_response rid text False False None) xs) = 0" for xs
    by (induction xs) simp_all
  then show ?thesis by (simp add: draft_response_def)
qed

lemma is_final_draft_begin_message: "is_final r (draft_begin_message m c) = (r = 0)"
  by (auto simp: draft_begin_message_def)

lemma sum_list_map_update:
  fixes f :: "'b \<Rightarrow> nat"
  shows "i < length xs \<Longrightarrow>
    sum_list (map f (xs[i := y])) + f (xs ! i) = sum_list (map f xs) + f y"
proof (induction xs arbitrary: i)
  case Nil
  then show ?case by simp
next
  case (Cons x xs)
  then show ?case by (cases i) auto
qed

lemma weight_handle_message:
  "weight r (handle_message m d s req) \<le> weight r s + sources r (Receive req)"
  by (auto simp: handle_message_def weight_def Let_def is_response_request_def carried_id_def
      finals_draft_response is_final_draft_begin_message task_finals_def split: option.splits)

lemma weight_resume: "weight r (resume s i) \<le> weight r s"
proof (cases "i < length (tasks s)")
  case False
  then show ?thesis by (simp add: resume_def)
next
  case True
  let ?t = "tasks s ! i"
  note upd = sum_list_map_update [OF True, of "task_finals r"]
  show ?thesis
  proof (cases "at ?t")
    case Finished
    then show ?thesis using True by (simp add: resume_def)
  next
    case Awaiting_send
    then show ?thesis
      using True upd [of "?t\<lparr>at := Finished\<rparr>"] upd [of "?t\<lparr>at := Awaiting_event\<rparr>"]
      by (simp add: resume_def weight_def task_finals_def Let_def)
  next
    case Awaiting_event
    show ?thesis
    proof (cases "events ?t")
      case Nil
      then show ?thesis
        using True Awaiting_event upd [of "?t\<lparr>at := Finished\<rparr>"]
        by (simp add: resume_def weight_def task_finals_def Let_def)
    next
      case (Cons e es)
      then show ?thesis
        using True Awaiting_event upd [of "?t\<lparr>events := es, at := Awaiting_send\<rparr>"]
        by (simp add: resume_def weight_def task_finals_def Let_def)
    qed
  qed
qed

lemma weight_step: "weight r (step m d s a) \<le> weight r s + sources r a"
proof (cases a)
  case (Receive req)
  then show ?thesis using weight_handle_message [of r m d s req] by simp
next
  case (Resume i)
  then show ?thesis using weight_resume [of r s i] by simp
qed

lemma weight_run: "weight r (run m d s schedule) \<le> weight r s + final_sources r schedule"
proof (induction schedule arbitrary: s)
  case Nil
  then show ?case by (simp add: run_def final_sources_def)
next
  case (Cons a schedule)
  have "weight r (run m d (step m d s a) schedule)
      \<le> weight r (step m d s a) + final_sources r schedule"
    by (rule Cons)
  moreover have "final_sources r (a # schedule) = sources r a + final_sources r schedule"
    by (simp add: final_sources_def)
  ultimately show ?case using weight_step [of r m d s a] by (simp add: run_Cons)
qed

text \<open>
  C5, as the code has it: requests are not deduplicated, every request for a
  response runs its own generation. However the tasks interleave, the final
  events with sequence number \<open>r\<close> on the connection are at most as many as the
  messages received that bring one: the requests that carry \<open>r\<close>, and for
  \<open>r = 0\<close> the call details with their opening response. Two requests with the
  same number can so deliver two final events.
\<close>

theorem finals_bounded_by_requests:
  "finals r (sent (run m d init_session schedule)) \<le> final_sources r schedule"
proof -
  have "weight r init_session = 0"
    by (simp add: weight_def init_session_def)
  then have "weight r (run m d init_session schedule) \<le> final_sources r schedule"
    using weight_run [of r m d init_session schedule] by simp
  then show ?thesis by (simp add: weight_def)
qed

theorem finals_bounded_by_requests_witness:
  "finals 1 (sent (run demo_llm demo_db init_session
      (demo_call @ [Resume 0, Resume 0, Resume 0, Resume 0,
         Receive (response_required 1 demo_turn), Resume 1, Resume 1, Resume 1])))
   \<le> final_sources 1
      (demo_call @ [Resume 0, Resume 0, Resume 0, Resume 0,
         Receive (response_required 1 demo_turn), Resume 1, Resume 1, Resume 1]) \<and>
   final_sources 1
      (demo_call @ [Resume 0, Resume 0, Resume 0, Resume 0,
         Receive (response_required 1 demo_turn), Resume 1, Resume 1, Resume 1]) = 2"
proof -
  have "final_sources 1
      (demo_call @ [Resume 0, Resume 0, Resume 0, Resume 0,
         Receive (response_required 1 demo_turn), Resume 1, Resume 1, Resume 1]) = 2"
    by code_simp
  then show ?thesis
    using finals_bounded_by_requests [of 1 demo_llm demo_db
      "demo_call @ [Resume 0, Resume 0, Resume 0, Resume 0,
         Receive (response_required 1 demo_turn), Resume 1, Resume 1, Resume 1]"]
    by simp
qed

text \<open>
  C5 as stated fails: the same request received twice, each generation run to
  its end, puts two final events with that sequence number on the connection.
\<close>

theorem duplicate_request_two_finals:
  "finals 1 (sent (run demo_llm demo_db init_session
      (demo_call @ [Resume 0, Resume 0, Resume 0, Resume 0,
         Receive (response_required 1 demo_turn), Resume 1, Resume 1, Resume 1]))) = 2"
  by code_simp

text \<open>
  C1 fails on the code: the comparison with the shared \<open>response_id\<close> comes after
  \<open>send_json\<close>, not before it. A response with number 1 is being streamed and
  waits for its next event; a request with number 2 is received and recorded;
  the next event of response 1, its final one, is sent all the same.
\<close>

theorem stale_final_after_newer_request:
  "response_id (handle_message demo_llm demo_db demo_in_flight (response_required 2 demo_turn))
     = 2 \<and>
   sent (handle_message demo_llm demo_db demo_in_flight (response_required 2 demo_turn))
     = sent demo_in_flight \<and>
   sent (resume (handle_message demo_llm demo_db demo_in_flight
                   (response_required 2 demo_turn)) 0)
     = sent demo_in_flight @ [LLM_response 1 [] True False None]"
  by code_simp

end
